theory Spec2Isabelle
  imports Main
begin

section \<open>JavaScript values used by the application\<close>

text \<open>
  The application is a React front end written in TypeScript. Its components keep their
  state in \<open>useState\<close> cells; an event handler is a function from the rendered state
  to the next state. Strings are \<open>string\<close>, arrays are lists, an optional field
  (\<open>field?: T\<close>) is an \<open>option\<close>, and a thrown exception is the \<open>Inl\<close> of a sum.
  Identifiers from \<open>crypto.randomUUID()\<close> and clock readings from \<open>Date.now()\<close>
  are arguments of the handler that consumes them.
\<close>

datatype js_error =
    SyntaxError         \<comment> \<open>thrown by \<open>JSON.parse\<close> on malformed text\<close>
  | TypeError           \<comment> \<open>property read on \<open>undefined\<close>\<close>
  | GatewayError        \<comment> \<open>the remote generation call rejected\<close>
  | InvalidImageData    \<comment> \<open>\<open>new Error("Invalid image data format")\<close>\<close>
  | NoImageGenerated    \<comment> \<open>\<open>new Error("No image generated")\<close>\<close>

text \<open>A JavaScript string is truthy exactly when it is not empty.\<close>

definition truthy :: "string \<Rightarrow> bool" where
  "truthy s = (s \<noteq> [])"

text \<open>\<open>x || d\<close> on an optional string: \<open>undefined\<close> and \<open>''\<close> both fall through to \<open>d\<close>.\<close>

fun js_or :: "string option \<Rightarrow> string \<Rightarrow> string" where
  "js_or None d = d"
| "js_or (Some s) d = (if truthy s then s else d)"

text \<open>Truthiness of an optional string field (\<open>if (project.finalImage)\<close>).\<close>

fun truthy_opt :: "string option \<Rightarrow> bool" where
  "truthy_opt None = False"
| "truthy_opt (Some s) = truthy s"

text \<open>\<open>Array.prototype.find\<close>: the first element satisfying the predicate, or \<open>undefined\<close>.\<close>

fun js_find :: "('a \<Rightarrow> bool) \<Rightarrow> 'a list \<Rightarrow> 'a option" where
  "js_find P [] = None"
| "js_find P (x # xs) = (if P x then Some x else js_find P xs)"

section \<open>types.ts\<close>

text \<open>
  Field names are those of the TypeScript interfaces; a name shared by several interfaces
  carries the interface as a suffix (\<open>id_img\<close> is \<open>ArchivedImage.id\<close>, \<open>id_proj\<close> is
  \<open>Project.id\<close>, and so on).
\<close>

datatype AppStage = BRIEFING | RESEARCH | PROPOSAL | REFINEMENT | FINAL

record BriefingData =
  typology :: string
  location :: string
  contextDetails :: string
  prompt_brief :: string
  inspirationImages :: "string list"
  massingImage :: "string option"
  builtUpArea :: "string option"
  floorCount :: "string option"
  preferredMaterials :: "string option"
  moodMatchIntensity :: "int option"

record ResearchData =
  summary :: string
  materials :: "string list"
  lighting :: string
  vernacular :: string

datatype OptionType = LITERAL | INSPIRED | WILDCARD | HYBRID

record GeneratedOption =
  id_opt :: string
  title_opt :: string
  description_opt :: string
  imageUrl_opt :: string
  type_opt :: OptionType

datatype Role = User | Model

record ChatMessage =
  id_msg :: string
  role_msg :: Role
  text_msg :: string
  imageUrl_msg :: "string option"

record ArchivedImage =
  id_img :: string
  url_img :: string
  stage_img :: AppStage
  timestamp_img :: nat
  metadata_img :: "string option"
  type_img :: string

record Project =
  id_proj :: string
  name_proj :: string
  timestamp_proj :: nat
  brief_proj :: BriefingData
  research_proj :: "ResearchData option"
  images_proj :: "ArchivedImage list"
  finalImage_proj :: "string option"

text \<open>
  \<open>Partial<ArchivedImage>\<close>, the argument of \<open>onArchive\<close>: every field may be missing.
  \<open>addToArchive\<close> reads \<open>id\<close>, \<open>url\<close>, \<open>type\<close> and \<open>metadata\<close> only.
\<close>

record PartialArchivedImage =
  id_part :: "string option"
  url_part :: "string option"
  type_part :: "string option"
  metadata_part :: "string option"

section \<open>App.tsx: the stage controller and the project archive\<close>

record App =
  stage :: AppStage
  briefData :: "BriefingData option"
  researchData :: "ResearchData option"
  selectedOption :: "GeneratedOption option"
  finalImage :: string
  chatHistory_app :: "ChatMessage list"
  projects :: "Project list"
  currentProjectId :: string
  isLibraryOpen :: bool

subsection \<open>Startup: the initial value of \<open>projects\<close>\<close>

text \<open>
  \<^verbatim>\<open>
  const [projects, setProjects] = useState<Project[]>(() => {
    const saved = localStorage.getItem(STORAGE_KEY);
    return saved ? JSON.parse(saved) : [];
  });
  \<close>
  \<open>localStorage.getItem\<close> returns \<open>null\<close> (here \<open>None\<close>) for a missing key.
  \<open>JSON.parse\<close> belongs to the platform, so it is the parameter \<open>parse\<close>: it returns
  the parsed collection or throws. Nothing catches what it throws.
\<close>

definition projects_init :: "(string \<Rightarrow> js_error + Project list) \<Rightarrow> string option \<Rightarrow> js_error + Project list" where
  "projects_init parse saved =
     (case saved of
        None \<Rightarrow> Inr []
      | Some s \<Rightarrow> if truthy s then parse s else Inr [])"

subsection \<open>\<open>addToArchive\<close>\<close>

text \<open>
  \<^verbatim>\<open>
  const newImage: ArchivedImage = {
    id: img.id || crypto.randomUUID(),
    url: img.url || '',
    stage: stage,
    timestamp: Date.now(),
    type: img.type || 'UNKNOWN',
    metadata: img.metadata || 'Generated Image'
  };
  \<close>
\<close>

definition newImage :: "App \<Rightarrow> PartialArchivedImage \<Rightarrow> string \<Rightarrow> nat \<Rightarrow> ArchivedImage" where
  "newImage app img uuid now =
     \<lparr> id_img = js_or (id_part img) uuid,
       url_img = js_or (url_part img) [],
       stage_img = stage app,
       timestamp_img = now,
       metadata_img = Some (js_or (metadata_part img) ''Generated Image''),
       type_img = js_or (type_part img) ''UNKNOWN'' \<rparr>"

text \<open>
  The updater passed to \<open>setProjects\<close>:
  \<^verbatim>\<open>
  const proj = prev.find(p => p.id === currentProjectId);
  if (!proj) return prev;
  if (proj.images.find(i => i.id === newImage.id)) return prev;
  return prev.map(p => p.id === currentProjectId
    ? { ...p, images: [newImage, ...p.images] } : p);
  \<close>
\<close>

definition appendImage :: "string \<Rightarrow> ArchivedImage \<Rightarrow> Project list \<Rightarrow> Project list" where
  "appendImage projectId img prev =
     (case js_find (\<lambda>p. id_proj p = projectId) prev of
        None \<Rightarrow> prev
      | Some proj \<Rightarrow>
          (case js_find (\<lambda>i. id_img i = id_img img) (images_proj proj) of
             Some _ \<Rightarrow> prev
           | None \<Rightarrow>
               map (\<lambda>p. if id_proj p = projectId
                         then p\<lparr>images_proj := img # images_proj p\<rparr> else p) prev))"

text \<open>
  \<open>addToArchive\<close> reads \<open>stage\<close> and \<open>currentProjectId\<close> from the render that created it
  (\<open>rendered\<close>) and hands React an updater, which React applies to the latest list (\<open>prev\<close>).
\<close>

definition addToArchive :: "App \<Rightarrow> PartialArchivedImage \<Rightarrow> string \<Rightarrow> nat \<Rightarrow> Project list \<Rightarrow> Project list" where
  "addToArchive rendered img uuid now prev =
     appendImage (currentProjectId rendered) (newImage rendered img uuid now) prev"

subsection \<open>\<open>startNewProject\<close>\<close>

definition startNewProject :: "string \<Rightarrow> App \<Rightarrow> App" where
  "startNewProject uuid app =
     app\<lparr> currentProjectId := uuid,
          briefData := None,
          researchData := None,
          selectedOption := None,
          finalImage := [],
          chatHistory_app := [],
          stage := BRIEFING,
          isLibraryOpen := False \<rparr>"

subsection \<open>\<open>loadProject\<close>\<close>

text \<open>
  \<^verbatim>\<open>
  setCurrentProjectId(project.id);
  setBriefData(project.brief);
  setResearchData(project.research || null);
  setFinalImage(project.finalImage || '');
  if (project.finalImage) setStage(AppStage.FINAL);
  else if (project.research) setStage(AppStage.PROPOSAL);
  else setStage(AppStage.BRIEFING);
  setIsLibraryOpen(false);
  \<close>
\<close>

definition loadProject :: "Project \<Rightarrow> App \<Rightarrow> App" where
  "loadProject project app =
     app\<lparr> currentProjectId := id_proj project,
          briefData := Some (brief_proj project),
          researchData := research_proj project,
          finalImage := js_or (finalImage_proj project) [],
          stage := (if truthy_opt (finalImage_proj project) then FINAL
                    else if research_proj project \<noteq> None then PROPOSAL
                    else BRIEFING),
          isLibraryOpen := False \<rparr>"

section \<open>services/gemini.ts: the remote generation gateway\<close>

text \<open>
  The generative service is outside the program. A call either rejects or resolves to a
  response, and the code reads only
  \<open>response.candidates[0].content.parts[i].inlineData\<close>. Each of
  \<open>candidates\<close>, \<open>content\<close> and \<open>parts\<close> may be undefined. The reply of each call is an
  argument of the function that awaits it; the prompt text and the reference images the code
  sends influence nothing else in the program. Constructing the client (\<open>getAI()\<close>) is taken
  to succeed.
\<close>

datatype Part = InlineData string string | TextPart string

type_synonym Content = "Part list option"
type_synonym Candidate = "Content option"
type_synonym Response = "Candidate list option"
type_synonym Reply = "js_error + Response"

text \<open>\<open>`data:${part.inlineData.mimeType};base64,${part.inlineData.data}`\<close>\<close>

definition dataUrl :: "string \<Rightarrow> string \<Rightarrow> string" where
  "dataUrl mimeType d = ''data:'' @ mimeType @ '';base64,'' @ d"

text \<open>
  \<^verbatim>\<open>
  for (const part of response.candidates[0].content.parts) {
      if (part.inlineData) { imageUrl = `data:...`; }
  }
  \<close>
  The loop keeps the last inline part.
\<close>

fun lastInline :: "Part list \<Rightarrow> string \<Rightarrow> string" where
  "lastInline [] imageUrl = imageUrl"
| "lastInline (InlineData m d # ps) imageUrl = lastInline ps (dataUrl m d)"
| "lastInline (TextPart t # ps) imageUrl = lastInline ps imageUrl"


text \<open>
  \<open>if (response.candidates && response.candidates[0].content.parts)\<close> guards the loop.
  An undefined \<open>candidates\<close> or \<open>parts\<close> skips it; an empty \<open>candidates\<close> array is truthy,
  so \<open>candidates[0].content\<close> throws a TypeError, and so does an undefined \<open>content\<close>.
\<close>

definition responseParts :: "Response \<Rightarrow> js_error + Part list" where
  "responseParts response =
     (case response of
        None \<Rightarrow> Inr []
      | Some [] \<Rightarrow> Inl TypeError
      | Some (None # _) \<Rightarrow> Inl TypeError
      | Some (Some None # _) \<Rightarrow> Inr []
      | Some (Some (Some ps) # _) \<Rightarrow> Inr ps)"

text \<open>The body of a \<open>try\<close> block around one call: await the reply, then read the image.\<close>

definition replyImage :: "(Part list \<Rightarrow> string) \<Rightarrow> Reply \<Rightarrow> js_error + string" where
  "replyImage pick reply =
     (case reply of
        Inl e \<Rightarrow> Inl e
      | Inr response \<Rightarrow>
          (case responseParts response of Inl e \<Rightarrow> Inl e | Inr ps \<Rightarrow> Inr (pick ps)))"


subsection \<open>\<open>generateArchitecturalConcepts\<close>\<close>





subsection \<open>\<open>generateHybridConcepts\<close>\<close>




subsection \<open>\<open>generateMultiAngleViews\<close>\<close>



subsection \<open>\<open>refineArchitecturalImage\<close>\<close>

text \<open>
  \<open>currentImage.match(/^data:(.+);base64,(.+)$/)\<close>: the string is \<open>data:\<close>, a non-empty
  run, \<open>;base64,\<close> and a non-empty run, where \<open>.\<close> excludes line terminators (of which
  the 8-bit characters here have LF and CR). Only whether it matches is used by the program.
\<close>

definition lineTerminator :: "char \<Rightarrow> bool" where
  "lineTerminator c = (c = CHR 0x0A \<or> c = CHR 0x0D)"

definition isDataUrl :: "string \<Rightarrow> bool" where
  "isDataUrl s =
     (take 5 s = ''data:'' \<and> \<not> list_ex lineTerminator s \<and>
      list_ex (\<lambda>i. take 8 (drop i (drop 5 s)) = '';base64,'' \<and> i + 8 < length (drop 5 s))
        [1 ..< length (drop 5 s)])"

text \<open>
  A current image that does not match throws before any call is made; an error of the
  call is logged and rethrown. Otherwise the result is the last inline image, or \<open>''\<close>.
\<close>

definition refineArchitecturalImage :: "string \<Rightarrow> Reply \<Rightarrow> js_error + string" where
  "refineArchitecturalImage currentImage reply =
     (if isDataUrl currentImage then replyImage (\<lambda>ps. lastInline ps []) reply
      else Inl InvalidImageData)"

section \<open>components/RefinementStep.tsx\<close>

record DesignVersion =
  id_ver :: string
  imageUrl_ver :: string
  timestamp_ver :: nat
  prompt_ver :: string

text \<open>The \<open>useState\<close> cells of the component.\<close>

record RefinementStep =
  currentImage :: string
  historyVersions :: "DesignVersion list"
  chatHistory :: "ChatMessage list"
  input :: string
  isProcessing :: bool

text \<open>
  The initial values: the ledger is seeded with the selected option as version \<open>v0\<close>, and
  the conversation with one message of the model.
\<close>

definition mount :: "GeneratedOption \<Rightarrow> nat \<Rightarrow> RefinementStep" where
  "mount selected now =
     \<lparr> currentImage = imageUrl_opt selected,
       historyVersions =
         [\<lparr> id_ver = ''v0'', imageUrl_ver = imageUrl_opt selected, timestamp_ver = now,
             prompt_ver = ''Original Concept'' \<rparr>],
       chatHistory =
         [\<lparr> id_msg = ''init'', role_msg = Model,
             text_msg = ''I've loaded the '' @ [CHR 0x22] @ title_opt selected @ [CHR 0x22] @
               '' concept. Please verify the mood and materials. How should we iterate on this design?'',
             imageUrl_msg = None \<rparr>],
       input = [],
       isProcessing = False \<rparr>"

text \<open>
  \<open>!promptText.trim()\<close> holds when the text is white space only. Here white space is
  tab, LF, VT, FF, CR and space. \<open>trim\<close> also removes U+00A0 and the white space beyond
  the 8-bit characters, which are not represented: on a prompt made of those only, the code
  returns while \<open>handleSend\<close> below starts a call. Every submission the code accepts is
  accepted here too.
\<close>

definition whiteSpace :: "char \<Rightarrow> bool" where
  "whiteSpace c = (c \<in> set [CHR 0x09, CHR 0x0A, CHR 0x0B, CHR 0x0C, CHR 0x0D, CHR 0x20])"

definition blank :: "string \<Rightarrow> bool" where
  "blank s = list_all whiteSpace s"

text \<open>
  What a suspended \<open>handleSend\<close> holds across its \<open>await\<close>: the image it sent and the text
  of its user message.
\<close>

record Pending =
  sentImage :: string
  sentText :: string

text \<open>
  \<open>handleSend\<close> up to the \<open>await\<close>:
  \<^verbatim>\<open>
  const promptText = overridePrompt || input;
  if (!promptText.trim() || isProcessing) return;
  const userMsg = { id: crypto.randomUUID(), role: 'user', text: promptText };
  setChatHistory(prev => [...prev, userMsg]);
  setInput('');
  setIsProcessing(true);
  ... await refineArchitecturalImage(currentImage, userMsg.text, briefData)
  \<close>
  The result is the next state and the call that was started, if one was.
\<close>

definition handleSend :: "string option \<Rightarrow> string \<Rightarrow> RefinementStep \<Rightarrow> RefinementStep \<times> Pending option" where
  "handleSend overridePrompt uuid s =
     (let promptText = js_or overridePrompt (input s) in
      if blank promptText \<or> isProcessing s then (s, None)
      else
        (s\<lparr> chatHistory := chatHistory s @
               [\<lparr> id_msg = uuid, role_msg = User, text_msg = promptText, imageUrl_msg = None \<rparr>],
            input := [],
            isProcessing := True \<rparr>,
         Some \<lparr> sentImage = currentImage s, sentText = promptText \<rparr>))"

definition errorMsg :: "string \<Rightarrow> ChatMessage" where
  "errorMsg uuid =
     \<lparr> id_msg = uuid, role_msg = Model,
       text_msg = ''I encountered an error processing that refinement. Please try a different instruction.'',
       imageUrl_msg = None \<rparr>"

definition modelMsg :: "string \<Rightarrow> string \<Rightarrow> ChatMessage" where
  "modelMsg uuid newImageUrl =
     \<lparr> id_msg = uuid, role_msg = Model,
       text_msg = ''Design updated. I've incorporated your comments while maintaining the inspiration mood. What else needs adjustment?'',
       imageUrl_msg = Some newImageUrl \<rparr>"

text \<open>
  \<open>handleSend\<close> from the \<open>await\<close> on. \<open>uuids\<close> are the next two results of
  \<open>crypto.randomUUID()\<close>: the success branch draws the version id and then the message id,
  the \<open>catch\<close> branch draws the id of the error message. An empty image throws
  \<open>"No image generated"\<close> inside the \<open>try\<close>, so it takes the \<open>catch\<close> branch too.
  \<open>finally\<close> clears \<open>isProcessing\<close>. The second component lists the calls of \<open>onArchive\<close>.
\<close>

definition handleSend_settled :: "Pending \<Rightarrow> Reply \<Rightarrow> string \<times> string \<Rightarrow> nat \<Rightarrow> RefinementStep \<Rightarrow> RefinementStep \<times> PartialArchivedImage list" where
  "handleSend_settled pending reply uuids now s =
     (let failed = (s\<lparr> chatHistory := chatHistory s @ [errorMsg (fst uuids)],
                       isProcessing := False \<rparr>, []) in
      case refineArchitecturalImage (sentImage pending) reply of
        Inl e \<Rightarrow> failed
      | Inr newImageUrl \<Rightarrow>
          if truthy newImageUrl then
            (s\<lparr> currentImage := newImageUrl,
                historyVersions := historyVersions s @
                  [\<lparr> id_ver = fst uuids, imageUrl_ver = newImageUrl, timestamp_ver = now,
                      prompt_ver = sentText pending \<rparr>],
                chatHistory := chatHistory s @ [modelMsg (snd uuids) newImageUrl],
                isProcessing := False \<rparr>,
             [\<lparr> id_part = Some (fst uuids), url_part = Some newImageUrl,
                 type_part = Some ''ITERATION'',
                 metadata_part = Some (''Refinement: '' @ sentText pending) \<rparr>])
          else failed)"

text \<open>
  \<^verbatim>\<open>
  const restoreVersion = (version: DesignVersion) => {
      setCurrentImage(version.imageUrl);
      const restoreMsg = { id: crypto.randomUUID(), role: 'model',
          text: `Restored version from ${version.timestamp.toLocaleTimeString()}.` };
      setChatHistory(prev => [...prev, restoreMsg]);
  };
  \<close>
  \<open>toLocaleTimeString\<close> depends on the locale of the browser; it is a parameter.
\<close>

definition restoreVersion :: "(nat \<Rightarrow> string) \<Rightarrow> DesignVersion \<Rightarrow> string \<Rightarrow> RefinementStep \<Rightarrow> RefinementStep" where
  "restoreVersion toLocaleTimeString version uuid s =
     s\<lparr> currentImage := imageUrl_ver version,
        chatHistory := chatHistory s @
          [\<lparr> id_msg = uuid, role_msg = Model,
              text_msg = ''Restored version from '' @ toLocaleTimeString (timestamp_ver version) @ ''.'',
              imageUrl_msg = None \<rparr>] \<rparr>"

subsection \<open>A refinement session as a sequence of events\<close>

text \<open>
  A session is the component state, the calls that have been started and have not settled
  yet (oldest first), and the log of \<open>onArchive\<close> calls. An event is one run of an event
  handler or of the continuation of a settled call:
  typing into the text area (\<open>setInput\<close>), \<open>handleSend\<close> (from the Enter key, the send
  button or the redesign button, with its override), the settling of the oldest call, and a
  click on entry \<open>i\<close> of the history strip.
\<close>

record Session =
  view :: RefinementStep
  inFlight :: "Pending list"
  archiveCalls :: "PartialArchivedImage list"

datatype Event =
    Typed string
  | Send "string option" string
  | Settled Reply "string \<times> string" nat
  | Restore nat string

definition start :: "GeneratedOption \<Rightarrow> nat \<Rightarrow> Session" where
  "start selected now = \<lparr> view = mount selected now, inFlight = [], archiveCalls = [] \<rparr>"

fun step :: "(nat \<Rightarrow> string) \<Rightarrow> Event \<Rightarrow> Session \<Rightarrow> Session" where
  "step fmt (Typed txt) \<sigma> = \<sigma>\<lparr> view := (view \<sigma>)\<lparr> input := txt \<rparr> \<rparr>"
| "step fmt (Send overridePrompt uuid) \<sigma> =
     (case handleSend overridePrompt uuid (view \<sigma>) of
        (s, None) \<Rightarrow> \<sigma>\<lparr> view := s \<rparr>
      | (s, Some call) \<Rightarrow> \<sigma>\<lparr> view := s, inFlight := inFlight \<sigma> @ [call] \<rparr>)"
| "step fmt (Settled reply uuids now) \<sigma> =
     (case inFlight \<sigma> of
        [] \<Rightarrow> \<sigma>
      | call # rest \<Rightarrow>
          (case handleSend_settled call reply uuids now (view \<sigma>) of
             (s, writes) \<Rightarrow>
               \<sigma>\<lparr> view := s, inFlight := rest, archiveCalls := archiveCalls \<sigma> @ writes \<rparr>))"
| "step fmt (Restore i uuid) \<sigma> =
     (if i < length (historyVersions (view \<sigma>))
      then \<sigma>\<lparr> view := restoreVersion fmt (historyVersions (view \<sigma>) ! i) uuid (view \<sigma>) \<rparr>
      else \<sigma>)"

fun run :: "(nat \<Rightarrow> string) \<Rightarrow> Event list \<Rightarrow> Session \<Rightarrow> Session" where
  "run fmt [] \<sigma> = \<sigma>"
| "run fmt (e # es) \<sigma> = run fmt es (step fmt e \<sigma>)"

text \<open>
  A settling event is successful when a call is in flight and its refinement yields a
  non-empty image.
\<close>

fun successful :: "Event \<Rightarrow> Session \<Rightarrow> bool" where
  "successful (Settled reply uuids now) \<sigma> =
     (case inFlight \<sigma> of
        [] \<Rightarrow> False
      | call # rest \<Rightarrow>
          (case refineArchitecturalImage (sentImage call) reply of
             Inl e \<Rightarrow> False
           | Inr url \<Rightarrow> truthy url))"
| "successful e \<sigma> = False"

fun successes :: "(nat \<Rightarrow> string) \<Rightarrow> Event list \<Rightarrow> Session \<Rightarrow> nat" where
  "successes fmt [] \<sigma> = 0"
| "successes fmt (e # es) \<sigma> = (if successful e \<sigma> then 1 else 0) + successes fmt es (step fmt e \<sigma>)"

section \<open>Continuations of the stages' asynchronous effects\<close>

text \<open>
  Each stage starts its generation call in a \<open>useEffect\<close> and continues when the call
  settles. A continuation is modelled by the list of state-changing calls it makes, in
  order. \<open>OnArchive\<close> is a call of the \<open>onArchive\<close> prop, which is \<open>addToArchive\<close> of the
  render that mounted the stage.
\<close>

datatype Mutation =
    OnArchive PartialArchivedImage
  | SetStatus string
  | SetDetails "string list"
  | CompleteIn2s ResearchData     \<comment> \<open>\<open>setTimeout(() => onResearchComplete(research), 2000)\<close>\<close>
  | OnResearchComplete ResearchData
  | SetAngles "string list"
  | SetLoadingAngles bool
  | SetOptions "GeneratedOption list"
  | SetLoading bool

text \<open>\<open>Array.prototype.join\<close> on strings.\<close>

fun join :: "string \<Rightarrow> string list \<Rightarrow> string" where
  "join sep [] = []"
| "join sep [x] = x"
| "join sep (x # y # ys) = x @ sep @ join sep (y # ys)"

text \<open>A number inside a template literal: its decimal digits.\<close>

fun showNat :: "nat \<Rightarrow> string" where
  "showNat n = (if n < 10 then [char_of (48 + n)] else showNat (n div 10) @ [char_of (48 + n mod 10)])"

declare showNat.simps [simp del]

subsection \<open>ResearchStep\<close>

text \<open>
  The effect declares \<open>let isMounted = true\<close> and returns the cleanup
  \<open>() => { isMounted = false; }\<close>. After the \<open>await\<close>:
  \<^verbatim>\<open>
  if (isMounted) {
      setDetails([...]);
      setTimeout(() => { onResearchComplete(research); }, 2000);
  }
  \<close>
  The three status timers read the flag when they fire; the completion timer does not.
\<close>

definition statusTimer :: "bool \<Rightarrow> string \<Rightarrow> Mutation list" where
  "statusTimer isMounted status = (if isMounted then [SetStatus status] else [])"

definition runResearch_settled :: "bool \<Rightarrow> ResearchData \<Rightarrow> Mutation list" where
  "runResearch_settled isMounted research =
     (if isMounted then
        [ SetDetails
            [ ''Detected Context: '' @ lighting research,
              ''Suggested Materials: '' @ join '', '' (materials research),
              ''Style Note: '' @ vernacular research ],
          CompleteIn2s research ]
      else [])"

text \<open>The \<open>catch\<close> branch: \<open>if (isMounted) setStatus("Error accessing context database.")\<close>.\<close>

definition runResearch_rejected :: "bool \<Rightarrow> Mutation list" where
  "runResearch_rejected isMounted =
     (if isMounted then [SetStatus ''Error accessing context database.''] else [])"

definition completeTimer :: "ResearchData \<Rightarrow> Mutation list" where
  "completeTimer research = [OnResearchComplete research]"

subsection \<open>FinalStep\<close>

text \<open>
  The effect declares \<open>let mounted = true\<close> and returns \<open>() => { mounted = false; }\<close>.
  \<^verbatim>\<open>
  const newAngles = await generateMultiAngleViews(finalImage, briefData);
  if (mounted) {
      setAngles(newAngles);
      newAngles.forEach((url, idx) => {
          onArchive({ id: `angle-${idx}-${Date.now()}`, url: url, type: 'ANGLE',
                      metadata: `Final View: Angle ${idx + 1}` });
      });
  }
  ... finally { if (mounted) setLoadingAngles(false); }
  \<close>
  \<open>clock idx\<close> is what \<open>Date.now()\<close> returns in iteration \<open>idx\<close>. A rejected batch
  (\<open>Inl\<close>) is logged by the \<open>catch\<close> branch, which changes no state.
\<close>

definition loadAngles_settled :: "bool \<Rightarrow> (nat \<Rightarrow> nat) \<Rightarrow> js_error + string list \<Rightarrow> Mutation list" where
  "loadAngles_settled mounted clock result =
     (case result of
        Inl e \<Rightarrow> []
      | Inr newAngles \<Rightarrow>
          if mounted then
            SetAngles newAngles #
            map (\<lambda>(idx, url).
                   OnArchive \<lparr> id_part = Some (''angle-'' @ showNat idx @ ''-'' @ showNat (clock idx)),
                               url_part = Some url,
                               type_part = Some ''ANGLE'',
                               metadata_part = Some (''Final View: Angle '' @ showNat (idx + 1)) \<rparr>)
                (enumerate 0 newAngles)
          else []) @
     (if mounted then [SetLoadingAngles False] else [])"

subsection \<open>ProposalStep\<close>

text \<open>
  The effect of ProposalStep declares no flag and returns no cleanup:
  \<^verbatim>\<open>
  useEffect(() => {
    const fetchOptions = async () => {
      setLoading(true);
      const generated = await generateArchitecturalConcepts(briefData, researchData);
      generated.forEach(opt => {
          onArchive({ id: opt.id, url: opt.imageUrl, type: 'CONCEPT',
                      metadata: `${opt.title}: ${opt.description}` });
      });
      setOptions(generated);
      setLoading(false);
    };
    fetchOptions();
  }, []);
  \<close>
  Its continuation therefore has no argument that could tell it whether the component is
  still mounted.
\<close>

definition fetchOptions_settled :: "GeneratedOption list \<Rightarrow> Mutation list" where
  "fetchOptions_settled generated =
     map (\<lambda>opt. OnArchive \<lparr> id_part = Some (id_opt opt),
                             url_part = Some (imageUrl_opt opt),
                             type_part = Some ''CONCEPT'',
                             metadata_part = Some (title_opt opt @ '': '' @ description_opt opt) \<rparr>)
         generated @
     [SetOptions generated, SetLoading False]"

text \<open>
  What a list of mutations does to the project archive: every \<open>OnArchive\<close> runs
  \<open>addToArchive\<close> of the render \<open>rendered\<close> on the latest list. \<open>env k\<close> gives the fresh
  identifier and the clock reading of the \<open>k\<close>-th such call.
\<close>

fun archived :: "App \<Rightarrow> (nat \<Rightarrow> string \<times> nat) \<Rightarrow> nat \<Rightarrow> Mutation list \<Rightarrow> Project list \<Rightarrow> Project list" where
  "archived rendered env k [] prev = prev"
| "archived rendered env k (OnArchive img # ms) prev =
     archived rendered env (Suc k) ms (addToArchive rendered img (fst (env k)) (snd (env k)) prev)"
| "archived rendered env k (m # ms) prev = archived rendered env k ms prev"

section \<open>components/BriefingStep.tsx: the inspiration images\<close>

text \<open>
  A picked \<open>File\<close> is represented by the string its \<open>FileReader\<close> produces.
  \<^verbatim>\<open>
  if (e.target.files) {
    const files = Array.from(e.target.files);
    const remainingSlots = 10 - data.inspirationImages.length;
    if (remainingSlots <= 0) return;
    const filesToProcess = files.slice(0, remainingSlots);
    Promise.all(filesToProcess.map(... readAsDataURL ...)).then(newImages => {
      setData(prev => ({ ...prev,
        inspirationImages: [...prev.inspirationImages, ...newImages] }));
    });
  }
  \<close>
  The handler reads \<open>data\<close> of the current render and starts reading \<open>filesToProcess\<close>;
  it changes no state itself. \<open>handleInspirationChange\<close> returns the batch whose reading
  starts, if any. When all readers of the batch have finished, \<open>filesLoaded\<close> is the
  updater that runs on the state of that later moment.
\<close>

definition handleInspirationChange :: "string list option \<Rightarrow> BriefingData \<Rightarrow> string list option" where
  "handleInspirationChange files data =
     (case files of
        None \<Rightarrow> None
      | Some fs \<Rightarrow>
          (let remainingSlots = 10 - int (length (inspirationImages data)) in
           if remainingSlots \<le> 0 then None else Some (take (nat remainingSlots) fs)))"

definition filesLoaded :: "string list \<Rightarrow> BriefingData \<Rightarrow> BriefingData" where
  "filesLoaded newImages prev = prev\<lparr> inspirationImages := inspirationImages prev @ newImages \<rparr>"

text \<open>\<open>prev.inspirationImages.filter((_, i) => i !== index)\<close>\<close>

definition removeInspirationImage :: "nat \<Rightarrow> BriefingData \<Rightarrow> BriefingData" where
  "removeInspirationImage index prev =
     prev\<lparr> inspirationImages :=
             map snd (filter (\<lambda>(i, img). i \<noteq> index) (enumerate 0 (inspirationImages prev))) \<rparr>"

text \<open>The initial form.\<close>

definition initialData :: BriefingData where
  "initialData =
     \<lparr> typology = ''Museum'', location = [], contextDetails = [], prompt_brief = [],
       inspirationImages = [], massingImage = None, builtUpArea = Some [],
       floorCount = Some [], preferredMaterials = Some [], moodMatchIntensity = Some 50 \<rparr>"

text \<open>
  The form as a sequence of events: a file selection, the completion of the \<open>j\<close>-th batch
  that is still being read, and a click on the remove button of image \<open>i\<close>.
\<close>

record Form =
  data :: BriefingData
  reading :: "string list list"

datatype FormEvent = Pick "string list option" | Loaded nat | Remove nat

fun formStep :: "FormEvent \<Rightarrow> Form \<Rightarrow> Form" where
  "formStep (Pick files) f =
     (case handleInspirationChange files (data f) of
        None \<Rightarrow> f
      | Some batch \<Rightarrow> f\<lparr> reading := reading f @ [batch] \<rparr>)"
| "formStep (Loaded j) f =
     (if j < length (reading f)
      then f\<lparr> data := filesLoaded (reading f ! j) (data f),
               reading := take j (reading f) @ drop (Suc j) (reading f) \<rparr>
      else f)"
| "formStep (Remove i) f = f\<lparr> data := removeInspirationImage i (data f) \<rparr>"

fun formRun :: "FormEvent list \<Rightarrow> Form \<Rightarrow> Form" where
  "formRun [] f = f"
| "formRun (e # es) f = formRun es (formStep e f)"

text \<open>One addition whose files are read before anything else happens.\<close>

definition addFiles :: "string list \<Rightarrow> BriefingData \<Rightarrow> BriefingData" where
  "addFiles fs d =
     (case handleInspirationChange (Some fs) d of None \<Rightarrow> d | Some batch \<Rightarrow> filesLoaded batch d)"

section \<open>Vocabulary of the properties\<close>






text \<open>The in-flight gate of a refinement session: one call in flight exactly while
  \<open>isProcessing\<close> is set, and none otherwise.\<close>

definition gate :: "Session \<Rightarrow> bool" where
  "gate \<sigma> = (length (inFlight \<sigma>) = (if isProcessing (view \<sigma>) then 1 else 0))"

section \<open>Example values\<close>

definition demoBrief :: BriefingData where
  "demoBrief =
     \<lparr> typology = ''Museum'', location = ''Riyadh'', contextDetails = [], prompt_brief = [],
       inspirationImages = [], massingImage = None, builtUpArea = None,
       floorCount = None, preferredMaterials = None, moodMatchIntensity = None \<rparr>"

definition demoResearch :: ResearchData where
  "demoResearch =
     \<lparr> summary = ''Desert courtyard typology.'', materials = [''Local Stone'', ''Glass''],
       lighting = ''Harsh overhead sun.'', vernacular = ''Najdi.'' \<rparr>"

definition demoImage :: "string \<Rightarrow> ArchivedImage" where
  "demoImage i =
     \<lparr> id_img = i, url_img = ''data:image/png;base64,AAAA'', stage_img = PROPOSAL,
       timestamp_img = 7, metadata_img = Some ''Generated Image'', type_img = ''CONCEPT'' \<rparr>"

definition demoProject :: "string \<Rightarrow> ArchivedImage list \<Rightarrow> Project" where
  "demoProject p imgs =
     \<lparr> id_proj = p, name_proj = ''Museum in Riyadh'', timestamp_proj = 1,
       brief_proj = demoBrief, research_proj = None, images_proj = imgs,
       finalImage_proj = None \<rparr>"

text \<open>The application in the Proposal stage of project \<open>p1\<close>.\<close>

definition demoApp :: "Project list \<Rightarrow> App" where
  "demoApp ps =
     \<lparr> stage = PROPOSAL, briefData = Some demoBrief, researchData = Some demoResearch,
       selectedOption = None, finalImage = [], chatHistory_app = [], projects = ps,
       currentProjectId = ''p1'', isLibraryOpen = False \<rparr>"

text \<open>A parser that accepts the text of the empty array and throws on anything else.\<close>

definition demoParse :: "string \<Rightarrow> js_error + Project list" where
  "demoParse s = (if s = ''[]'' then Inr [] else Inl SyntaxError)"

definition okReply :: Reply where
  "okReply =
     Inr (Some [Some (Some [TextPart ''Here is the render.'', InlineData ''image/png'' ''AAAA''])])"


definition demoOption :: GeneratedOption where
  "demoOption =
     \<lparr> id_opt = ''a'', title_opt = ''The Direct Vision'',
       description_opt = ''A literal interpretation of your specific prompt requirements.'',
       imageUrl_opt = ''data:image/png;base64,AAAA'', type_opt = LITERAL \<rparr>"

definition demoTime :: "nat \<Rightarrow> string" where
  "demoTime t = ''12:00:00''"

text \<open>The user types an instruction and sends it.\<close>

definition demoEvents :: "Event list" where
  "demoEvents = [Typed ''make it night time'', Send None ''u1'']"


definition demoCall :: Pending where
  "demoCall = \<lparr> sentImage = ''data:image/png;base64,AAAA'', sentText = ''make it night time'' \<rparr>"


definition tenFiles :: "string list" where
  "tenFiles = [''f0'', ''f1'', ''f2'', ''f3'', ''f4'', ''f5'', ''f6'', ''f7'', ''f8'', ''f9'']"

section \<open>The project archive\<close>

lemma js_find_None_iff: "js_find P xs = None \<longleftrightarrow> (\<forall>x \<in> set xs. \<not> P x)"
  by (induction xs) auto

lemma js_find_Some_D: "js_find P xs = Some x \<Longrightarrow> P x \<and> x \<in> set xs"
  by (induction xs) (auto split: if_splits)

lemma js_find_map_hit:
  assumes "js_find P xs = Some x" and "\<And>y. P (f y) = P y"
  shows "js_find P (map f xs) = Some (f x)"
  using assms by (induction xs) (auto split: if_splits)

lemma appendImage_no_project:
  assumes "projectId \<notin> id_proj ` set prev"
  shows "appendImage projectId img prev = prev"
proof -
  from assms have "js_find (\<lambda>p. id_proj p = projectId) prev = None"
    by (auto simp: js_find_None_iff)
  then show ?thesis by (simp add: appendImage_def)
qed

lemma appendImage_duplicate:
  assumes "js_find (\<lambda>p. id_proj p = projectId) prev = Some proj"
    and "id_img img \<in> id_img ` set (images_proj proj)"
  shows "appendImage projectId img prev = prev"
proof -
  from assms(2) have "js_find (\<lambda>i. id_img i = id_img img) (images_proj proj) \<noteq> None"
    by (auto simp: js_find_None_iff)
  with assms(1) show ?thesis by (auto simp: appendImage_def)
qed

lemma appendImage_fresh:
  assumes "js_find (\<lambda>p. id_proj p = projectId) prev = Some proj"
    and "id_img img \<notin> id_img ` set (images_proj proj)"
  shows "appendImage projectId img prev =
           map (\<lambda>p. if id_proj p = projectId then p\<lparr>images_proj := img # images_proj p\<rparr> else p) prev"
proof -
  from assms(2) have "js_find (\<lambda>i. id_img i = id_img img) (images_proj proj) = None"
    by (auto simp: js_find_None_iff image_iff)
  with assms(1) show ?thesis by (simp add: appendImage_def)
qed

lemma appendImage_fresh_find:
  assumes "js_find (\<lambda>p. id_proj p = projectId) prev = Some proj"
    and "id_img img \<notin> id_img ` set (images_proj proj)"
  shows "js_find (\<lambda>p. id_proj p = projectId) (appendImage projectId img prev) =
           Some (proj\<lparr>images_proj := img # images_proj proj\<rparr>)"
proof -
  let ?f = "\<lambda>p. if id_proj p = projectId then p\<lparr>images_proj := img # images_proj p\<rparr> else p"
  have "js_find (\<lambda>p. id_proj p = projectId) (map ?f prev) = Some (?f proj)"
    by (rule js_find_map_hit[OF assms(1)]) simp
  moreover have "id_proj proj = projectId"
    using js_find_Some_D[OF assms(1)] by simp
  ultimately show ?thesis by (simp add: appendImage_fresh[OF assms])
qed

lemma appendImage_twice:
  assumes "id_img img' = id_img img"
  shows "appendImage projectId img' (appendImage projectId img prev) = appendImage projectId img prev"
proof (cases "js_find (\<lambda>p. id_proj p = projectId) prev")
  case None
  then show ?thesis by (simp add: appendImage_def)
next
  case (Some proj)
  show ?thesis
  proof (cases "id_img img \<in> id_img ` set (images_proj proj)")
    case True
    have "appendImage projectId img prev = prev"
      by (rule appendImage_duplicate[OF Some True])
    moreover have "appendImage projectId img' prev = prev"
      using appendImage_duplicate[OF Some, of img'] True assms by simp
    ultimately show ?thesis by simp
  next
    case False
    have "js_find (\<lambda>p. id_proj p = projectId) (appendImage projectId img prev) =
            Some (proj\<lparr>images_proj := img # images_proj proj\<rparr>)"
      by (rule appendImage_fresh_find[OF Some False])
    then show ?thesis
      by (rule appendImage_duplicate) (simp add: assms)
  qed
qed

lemma one_copy:
  assumes "id_img img \<notin> id_img ` set imgs"
  shows "filter (\<lambda>i. id_img i = id_img img) (img # imgs) = [img]"
proof -
  from assms have "filter (\<lambda>i. id_img i = id_img img) imgs = []"
    by (auto simp: filter_empty_conv image_iff)
  then show ?thesis by simp
qed

text \<open>
  Claim C4. \<open>appendImage projectId img\<close> changes nothing when no project has the id
  \<open>projectId\<close>, and nothing when the project with that id (\<open>proj\<close>, the first one \<open>find\<close>
  meets) already holds an image with the id of \<open>img\<close>. Otherwise the list keeps its length,
  every project with another id is unchanged and the target has \<open>img\<close> in front of its former
  images; a second call with an image \<open>img'\<close> of the same id then leaves the target with
  exactly one image of that id. In every case the second call with the same id changes
  nothing.
\<close>

theorem appendImage_spec:
  "(projectId \<notin> id_proj ` set prev \<longrightarrow> appendImage projectId img prev = prev) \<and>
   (js_find (\<lambda>p. id_proj p = projectId) prev = Some proj \<and>
      id_img img \<in> id_img ` set (images_proj proj) \<longrightarrow> appendImage projectId img prev = prev) \<and>
   (js_find (\<lambda>p. id_proj p = projectId) prev = Some proj \<and>
      id_img img \<notin> id_img ` set (images_proj proj) \<longrightarrow>
      length (appendImage projectId img prev) = length prev \<and>
      (\<forall>i < length prev.
          appendImage projectId img prev ! i =
            (if id_proj (prev ! i) = projectId
             then (prev ! i)\<lparr>images_proj := img # images_proj (prev ! i)\<rparr> else prev ! i)) \<and>
      (id_img img' = id_img img \<longrightarrow>
         js_find (\<lambda>p. id_proj p = projectId)
             (appendImage projectId img' (appendImage projectId img prev)) =
           Some (proj\<lparr>images_proj := img # images_proj proj\<rparr>) \<and>
         filter (\<lambda>i. id_img i = id_img img) (img # images_proj proj) = [img])) \<and>
   (id_img img' = id_img img \<longrightarrow>
      appendImage projectId img' (appendImage projectId img prev) = appendImage projectId img prev)"
proof (intro conjI impI allI)
  assume "projectId \<notin> id_proj ` set prev"
  then show "appendImage projectId img prev = prev"
    by (rule appendImage_no_project)
next
  assume "js_find (\<lambda>p. id_proj p = projectId) prev = Some proj \<and>
      id_img img \<in> id_img ` set (images_proj proj)"
  then show "appendImage projectId img prev = prev"
    by (simp add: appendImage_duplicate)
next
  assume a: "js_find (\<lambda>p. id_proj p = projectId) prev = Some proj \<and>
      id_img img \<notin> id_img ` set (images_proj proj)"
  then show "length (appendImage projectId img prev) = length prev"
    by (simp add: appendImage_fresh)
  fix i assume "i < length prev"
  with a show "appendImage projectId img prev ! i =
            (if id_proj (prev ! i) = projectId
             then (prev ! i)\<lparr>images_proj := img # images_proj (prev ! i)\<rparr> else prev ! i)"
    by (simp add: appendImage_fresh)
next
  assume a: "js_find (\<lambda>p. id_proj p = projectId) prev = Some proj \<and>
      id_img img \<notin> id_img ` set (images_proj proj)"
    and b: "id_img img' = id_img img"
  from a have f: "js_find (\<lambda>p. id_proj p = projectId) prev = Some proj"
    and g: "id_img img \<notin> id_img ` set (images_proj proj)" by simp_all
  show "js_find (\<lambda>p. id_proj p = projectId)
             (appendImage projectId img' (appendImage projectId img prev)) =
           Some (proj\<lparr>images_proj := img # images_proj proj\<rparr>)"
    by (simp only: appendImage_twice[OF b] appendImage_fresh_find[OF f g])
  show "filter (\<lambda>i. id_img i = id_img img) (img # images_proj proj) = [img]"
    by (rule one_copy[OF g])
next
  assume "id_img img' = id_img img"
  then show "appendImage projectId img' (appendImage projectId img prev) = appendImage projectId img prev"
    by (rule appendImage_twice)
qed

text \<open>
  The four cases on an archive of two projects: an unknown project id, an image id the
  project already has, a new image id (the project \<open>p1\<close> gets the image in front, \<open>p2\<close>
  stays as it was), and the same call made twice.
\<close>

theorem appendImage_spec_witness:
  "appendImage ''p9'' (demoImage ''a'') [demoProject ''p1'' [], demoProject ''p2'' []] =
     [demoProject ''p1'' [], demoProject ''p2'' []] \<and>
   appendImage ''p1'' (demoImage ''a'') [demoProject ''p1'' [demoImage ''a''], demoProject ''p2'' []] =
     [demoProject ''p1'' [demoImage ''a''], demoProject ''p2'' []] \<and>
   appendImage ''p1'' (demoImage ''a'') [demoProject ''p1'' [demoImage ''b''], demoProject ''p2'' []] ! 0 =
     demoProject ''p1'' [demoImage ''a'', demoImage ''b''] \<and>
   appendImage ''p1'' (demoImage ''a'') [demoProject ''p1'' [demoImage ''b''], demoProject ''p2'' []] ! 1 =
     demoProject ''p2'' [] \<and>
   appendImage ''p1'' (demoImage ''a'')
     (appendImage ''p1'' (demoImage ''a'') [demoProject ''p1'' [demoImage ''b''], demoProject ''p2'' []]) =
     appendImage ''p1'' (demoImage ''a'') [demoProject ''p1'' [demoImage ''b''], demoProject ''p2'' []]"
  using
    appendImage_spec[of "''p9''" "[demoProject ''p1'' [], demoProject ''p2'' []]" "demoImage ''a''"
       "demoProject ''p1'' []" "demoImage ''a''"]
    appendImage_spec[of "''p1''" "[demoProject ''p1'' [demoImage ''a''], demoProject ''p2'' []]"
       "demoImage ''a''" "demoProject ''p1'' [demoImage ''a'']" "demoImage ''a''"]
    appendImage_spec[of "''p1''" "[demoProject ''p1'' [demoImage ''b''], demoProject ''p2'' []]"
       "demoImage ''a''" "demoProject ''p1'' [demoImage ''b'']" "demoImage ''a''"]
  by (simp add: demoProject_def demoImage_def)

section \<open>Startup\<close>

lemma projects_init_absent:
  "projects_init parse None = Inr [] \<and> projects_init parse (Some []) = Inr []"
  by (simp add: projects_init_def truthy_def)

lemma projects_init_parsed:
  "s \<noteq> [] \<Longrightarrow> projects_init parse (Some s) = parse s"
  by (simp add: projects_init_def truthy_def)

text \<open>
  Claim C1 asks that initialisation yields the empty collection for absent and for corrupt
  storage and never fails. For absent storage and for the empty string it does
  (\<open>projects_init_absent\<close>). For any other stored string on which \<open>JSON.parse\<close> throws, the
  initialiser throws the same error: no handler stands between the parser and React.
\<close>

theorem projects_init_throws:
  "s \<noteq> [] \<and> parse s = Inl e \<longrightarrow> projects_init parse (Some s) = Inl e"
  by (simp add: projects_init_def truthy_def)

text \<open>The stored text \<open>{\<close> is not JSON; initialisation ends in the parser's SyntaxError.\<close>

theorem projects_init_throws_witness:
  "projects_init demoParse (Some ''{'') = Inl SyntaxError"
  using projects_init_throws[of "''{''" demoParse SyntaxError]
  by (simp add: demoParse_def)

section \<open>Entry stage of a loaded project\<close>

text \<open>
  Claim C8. \<open>loadProject\<close> enters Final when the project has a non-empty final image,
  whatever its other fields hold; without one it enters Proposal when research is present
  and Briefing when it is not.
\<close>

theorem loadProject_stage:
  "(finalImage_proj project = Some img \<and> img \<noteq> [] \<longrightarrow> stage (loadProject project app) = FINAL) \<and>
   ((finalImage_proj project = None \<or> finalImage_proj project = Some []) \<and>
     research_proj project = Some r \<longrightarrow> stage (loadProject project app) = PROPOSAL) \<and>
   ((finalImage_proj project = None \<or> finalImage_proj project = Some []) \<and>
     research_proj project = None \<longrightarrow> stage (loadProject project app) = BRIEFING)"
  by (cases "finalImage_proj project") (auto simp: loadProject_def truthy_def)

text \<open>
  A project with a final image and no research enters Final; one with research only enters
  Proposal; one with an empty final image and no research enters Briefing.
\<close>

theorem loadProject_stage_witness:
  "stage (loadProject ((demoProject ''p2'' [])\<lparr>finalImage_proj := Some ''data:image/png;base64,AAAA''\<rparr>)
      (demoApp [])) = FINAL \<and>
   stage (loadProject ((demoProject ''p2'' [])\<lparr>research_proj := Some demoResearch\<rparr>) (demoApp [])) = PROPOSAL \<and>
   stage (loadProject ((demoProject ''p2'' [])\<lparr>finalImage_proj := Some []\<rparr>) (demoApp [])) = BRIEFING"
  using
    loadProject_stage[of "(demoProject ''p2'' [])\<lparr>finalImage_proj := Some ''data:image/png;base64,AAAA''\<rparr>"
      "''data:image/png;base64,AAAA''" "demoApp []" demoResearch]
    loadProject_stage[of "(demoProject ''p2'' [])\<lparr>research_proj := Some demoResearch\<rparr>"
      "[]" "demoApp []" demoResearch]
    loadProject_stage[of "(demoProject ''p2'' [])\<lparr>finalImage_proj := Some []\<rparr>"
      "[]" "demoApp []" demoResearch]
  by (simp add: demoProject_def)

section \<open>Batches of three generation calls\<close>





















section \<open>The refinement session\<close>



subsection \<open>A failed refinement\<close>





subsection \<open>The ledger\<close>

lemma step_ledger:
  "\<exists>vs. historyVersions (view (step fmt e \<sigma>)) = historyVersions (view \<sigma>) @ vs \<and>
        length vs = (if successful e \<sigma> then 1 else 0)"
proof (cases e)
  case (Typed typed)
  then show ?thesis by simp
next
  case (Send ov uuid)
  then show ?thesis
    by (auto simp: handleSend_def Let_def split: prod.splits option.splits if_splits)
next
  case (Settled reply uuids now)
  then show ?thesis
    by (auto simp: handleSend_settled_def Let_def split: list.splits sum.splits prod.splits if_splits)
next
  case (Restore i uuid)
  then show ?thesis by (simp add: restoreVersion_def)
qed

lemma run_ledger:
  "\<exists>vs. historyVersions (view (run fmt es \<sigma>)) = historyVersions (view \<sigma>) @ vs \<and>
        length vs = successes fmt es \<sigma>"
proof (induction es arbitrary: \<sigma>)
  case Nil
  then show ?case by simp
next
  case (Cons e es)
  obtain vs where vs: "historyVersions (view (step fmt e \<sigma>)) = historyVersions (view \<sigma>) @ vs"
      "length vs = (if successful e \<sigma> then 1 else 0)"
    using step_ledger by blast
  obtain ws where ws: "historyVersions (view (run fmt es (step fmt e \<sigma>))) =
        historyVersions (view (step fmt e \<sigma>)) @ ws"
      "length ws = successes fmt es (step fmt e \<sigma>)"
    using Cons.IH by blast
  have "historyVersions (view (run fmt (e # es) \<sigma>)) = historyVersions (view \<sigma>) @ (vs @ ws)"
    using vs(1) ws(1) by simp
  moreover have "length (vs @ ws) = successes fmt (e # es) \<sigma>"
    using vs(2) ws(2) by simp
  ultimately show ?case by blast
qed

text \<open>
  Claim C5. After any sequence of events of a session that was seeded with the selected
  option, the ledger has one entry more than the number of successful refinements among
  the events, and its entry 0 is the seeded version, whose instruction text is
  ``Original Concept''.
\<close>

theorem ledger_length:
  "length (historyVersions (view (run fmt es (start selected now)))) =
     successes fmt es (start selected now) + 1 \<and>
   prompt_ver (historyVersions (view (run fmt es (start selected now))) ! 0) = ''Original Concept'' \<and>
   historyVersions (view (run fmt es (start selected now))) ! 0 =
     \<lparr> id_ver = ''v0'', imageUrl_ver = imageUrl_opt selected, timestamp_ver = now,
       prompt_ver = ''Original Concept'' \<rparr>"
proof -
  obtain vs where vs: "historyVersions (view (run fmt es (start selected now))) =
      historyVersions (view (start selected now)) @ vs"
      "length vs = successes fmt es (start selected now)"
    using run_ledger by blast
  have seed: "historyVersions (view (start selected now)) =
      [\<lparr> id_ver = ''v0'', imageUrl_ver = imageUrl_opt selected, timestamp_ver = now,
         prompt_ver = ''Original Concept'' \<rparr>]"
    by (simp add: start_def mount_def)
  show ?thesis using vs by (simp add: seed)
qed

text \<open>
  One successful refinement, a restore of the original and one failed refinement: one
  success is counted and the ledger holds two versions.
\<close>

theorem ledger_length_witness:
  "successes demoTime
     (demoEvents @ [Settled okReply (''v1'', ''m1'') 5, Restore 0 ''r1'',
                    Send (Some ''redesign'') ''u2'', Settled (Inl GatewayError) (''e1'', ''e2'') 9])
     (start demoOption 0) = 1 \<and>
   map prompt_ver (historyVersions (view (run demoTime
     (demoEvents @ [Settled okReply (''v1'', ''m1'') 5, Restore 0 ''r1'',
                    Send (Some ''redesign'') ''u2'', Settled (Inl GatewayError) (''e1'', ''e2'') 9])
     (start demoOption 0)))) = [''Original Concept'', ''make it night time'']"
proof -
  let ?es = "demoEvents @ [Settled okReply (''v1'', ''m1'') 5, Restore 0 ''r1'',
                    Send (Some ''redesign'') ''u2'', Settled (Inl GatewayError) (''e1'', ''e2'') 9]"
  have n: "successes demoTime ?es (start demoOption 0) = 1"
    by code_simp
  have vs: "map prompt_ver (historyVersions (view (run demoTime ?es (start demoOption 0)))) =
      [''Original Concept'', ''make it night time'']"
    by code_simp
  from ledger_length[of demoTime ?es demoOption 0] n
  have "length (historyVersions (view (run demoTime ?es (start demoOption 0)))) = 2"
    by simp
  with n vs show ?thesis by simp
qed

subsection \<open>Restoring a version\<close>

text \<open>
  Claim C6. \<open>restoreVersion\<close> leaves the ledger as it is (same entries, same order), makes
  the image of the restored version the current image, appends exactly one turn to the
  conversation and touches no other cell. As an event of a session it starts no call and
  archives nothing.
\<close>

theorem restoreVersion_frame:
  "historyVersions (restoreVersion fmt version uuid s) = historyVersions s \<and>
   currentImage (restoreVersion fmt version uuid s) = imageUrl_ver version \<and>
   chatHistory (restoreVersion fmt version uuid s) =
     chatHistory s @
       [\<lparr> id_msg = uuid, role_msg = Model,
           text_msg = ''Restored version from '' @ fmt (timestamp_ver version) @ ''.'',
           imageUrl_msg = None \<rparr>] \<and>
   input (restoreVersion fmt version uuid s) = input s \<and>
   isProcessing (restoreVersion fmt version uuid s) = isProcessing s \<and>
   historyVersions (view (step fmt (Restore i uuid) \<sigma>)) = historyVersions (view \<sigma>) \<and>
   inFlight (step fmt (Restore i uuid) \<sigma>) = inFlight \<sigma> \<and>
   archiveCalls (step fmt (Restore i uuid) \<sigma>) = archiveCalls \<sigma>"
  by (simp add: restoreVersion_def)

text \<open>Restoring the original after one successful refinement.\<close>

theorem restoreVersion_frame_witness:
  "map id_ver (historyVersions (view (run demoTime
      (demoEvents @ [Settled okReply (''v1'', ''m1'') 5, Restore 0 ''r1'']) (start demoOption 0)))) =
     [''v0'', ''v1''] \<and>
   map id_msg (chatHistory (view (run demoTime
      (demoEvents @ [Settled okReply (''v1'', ''m1'') 5, Restore 0 ''r1'']) (start demoOption 0)))) =
     [''init'', ''u1'', ''m1'', ''r1'']"
proof -
  let ?\<sigma> = "run demoTime (demoEvents @ [Settled okReply (''v1'', ''m1'') 5]) (start demoOption 0)"
  have before: "map id_ver (historyVersions (view ?\<sigma>)) = [''v0'', ''v1''] \<and>
      map id_msg (chatHistory (view ?\<sigma>)) = [''init'', ''u1'', ''m1'']"
    by code_simp
  have split: "run demoTime (demoEvents @ [Settled okReply (''v1'', ''m1'') 5, Restore 0 ''r1''])
      (start demoOption 0) = step demoTime (Restore 0 ''r1'') ?\<sigma>"
    by (simp add: demoEvents_def)
  have "length (historyVersions (view ?\<sigma>)) = 2"
    using before by (metis length_map length_Cons list.size(3) numeral_2_eq_2)
  then show ?thesis
    using restoreVersion_frame[of demoTime "historyVersions (view ?\<sigma>) ! 0" "''r1''" "view ?\<sigma>" 0 ?\<sigma>]
      before
    unfolding split by simp
qed

subsection \<open>One call in flight\<close>

lemma gate_start: "gate (start selected now)"
  by (simp add: gate_def start_def mount_def)

lemma gate_step:
  assumes "gate \<sigma>"
  shows "gate (step fmt e \<sigma>)"
proof (cases e)
  case (Typed typed)
  with assms show ?thesis by (auto simp: gate_def split: if_splits)
next
  case (Send ov uuid)
  with assms show ?thesis
    by (auto simp: gate_def handleSend_def Let_def split: prod.splits option.splits if_splits)
next
  case (Settled reply uuids now)
  with assms show ?thesis
    by (auto simp: gate_def handleSend_settled_def Let_def
        split: list.splits sum.splits prod.splits if_splits)
next
  case (Restore i uuid)
  with assms show ?thesis by (auto simp: gate_def restoreVersion_def split: if_splits)
qed

lemma gate_run: "gate \<sigma> \<Longrightarrow> gate (run fmt es \<sigma>)"
  by (induction es arbitrary: \<sigma>) (simp_all add: gate_step)

lemma handleSend_gated: "isProcessing s \<Longrightarrow> handleSend overridePrompt uuid s = (s, None)"
  by (simp add: handleSend_def Let_def)

lemma settled_clears_flag: "\<not> isProcessing (fst (handleSend_settled call reply uuids now s))"
  by (auto simp: handleSend_settled_def Let_def split: sum.splits)

text \<open>
  Claim C7. In every state a session can reach, at most one refinement call is in flight,
  and one is in flight exactly while \<open>isProcessing\<close> is set. \<open>handleSend\<close> in a state with
  \<open>isProcessing\<close> set starts no call and returns the state unchanged, so a submission made
  while a call is in flight leaves the whole session as it is. When the call settles,
  \<open>isProcessing\<close> is cleared and no call is in flight.
\<close>

theorem single_flight:
  "length (inFlight (run fmt es (start selected now))) \<le> 1 \<and>
   (isProcessing (view (run fmt es (start selected now))) \<longleftrightarrow>
      inFlight (run fmt es (start selected now)) \<noteq> []) \<and>
   (isProcessing s \<longrightarrow> handleSend overridePrompt uuid s = (s, None)) \<and>
   (inFlight (run fmt es (start selected now)) \<noteq> [] \<longrightarrow>
      step fmt (Send overridePrompt uuid) (run fmt es (start selected now)) =
        run fmt es (start selected now)) \<and>
   (inFlight (run fmt es (start selected now)) \<noteq> [] \<longrightarrow>
      \<not> isProcessing (view (step fmt (Settled reply uuids now') (run fmt es (start selected now)))) \<and>
      inFlight (step fmt (Settled reply uuids now') (run fmt es (start selected now))) = [])"
proof -
  let ?\<sigma> = "run fmt es (start selected now)"
  have g: "gate ?\<sigma>" by (rule gate_run[OF gate_start])
  then have flag: "isProcessing (view ?\<sigma>) \<longleftrightarrow> inFlight ?\<sigma> \<noteq> []"
    by (auto simp: gate_def split: if_splits)
  have one: "length (inFlight ?\<sigma>) \<le> 1"
    using g by (simp add: gate_def split: if_splits)
  have rej: "step fmt (Send overridePrompt uuid) ?\<sigma> = ?\<sigma>" if "inFlight ?\<sigma> \<noteq> []"
    using that flag by (simp add: handleSend_gated)
  have settle: "\<not> isProcessing (view (step fmt (Settled reply uuids now') ?\<sigma>)) \<and>
      inFlight (step fmt (Settled reply uuids now') ?\<sigma>) = []" if "inFlight ?\<sigma> \<noteq> []"
  proof -
    from that one obtain call where c: "inFlight ?\<sigma> = [call]"
      by (cases "inFlight ?\<sigma>") auto
    show ?thesis
      using c settled_clears_flag[of call reply uuids now' "view ?\<sigma>"]
      by (auto split: prod.splits)
  qed
  show ?thesis using one flag rej settle by (simp add: handleSend_gated)
qed

text \<open>
  After the instruction has been sent, one call is in flight; the redesign button pressed
  now changes nothing; once the call has settled none is in flight.
\<close>

theorem single_flight_witness:
  "inFlight (run demoTime demoEvents (start demoOption 0)) = [demoCall] \<and>
   isProcessing (view (run demoTime demoEvents (start demoOption 0))) \<and>
   handleSend (Some ''redesign'') ''u2'' (view (run demoTime demoEvents (start demoOption 0))) =
     (view (run demoTime demoEvents (start demoOption 0)), None) \<and>
   step demoTime (Send (Some ''redesign'') ''u2'') (run demoTime demoEvents (start demoOption 0)) =
     run demoTime demoEvents (start demoOption 0) \<and>
   inFlight (step demoTime (Settled okReply (''v1'', ''m1'') 5)
     (run demoTime demoEvents (start demoOption 0))) = []"
proof -
  have one: "inFlight (run demoTime demoEvents (start demoOption 0)) = [demoCall]"
    by code_simp
  show ?thesis
    using single_flight[of demoTime demoEvents demoOption 0
        "view (run demoTime demoEvents (start demoOption 0))" "Some ''redesign''" "''u2''"
        okReply "(''v1'', ''m1'')" 5] one
    by simp
qed

section \<open>Completions after teardown\<close>

text \<open>
  The cleanup of ResearchStep and of FinalStep sets the flag of the effect to \<open>false\<close>. With
  the flag cleared, the continuation of the research call, the status timers and the
  continuation of the angle batch change nothing.
\<close>

lemma flags_suppress:
  "runResearch_settled False research = [] \<and> runResearch_rejected False = [] \<and>
   statusTimer False status = [] \<and> loadAngles_settled False clock result = []"
  by (simp add: runResearch_settled_def runResearch_rejected_def statusTimer_def
      loadAngles_settled_def split: sum.splits)

text \<open>The continuation of ProposalStep archives every generated option.\<close>

lemma fetchOptions_archives:
  "length (filter (\<lambda>m. case m of OnArchive img \<Rightarrow> True | _ \<Rightarrow> False) (fetchOptions_settled generated)) =
     length generated"
  by (simp add: fetchOptions_settled_def comp_def)

text \<open>
  Claim C9 asks that a completion arriving after teardown mutates nothing, for every stage
  with asynchronous work. ResearchStep and FinalStep meet it (\<open>flags_suppress\<close>).
  ProposalStep does not: it has no flag. Here the application is in the Proposal stage of
  project \<open>p1\<close> while the options are being generated; the user starts a new project, which
  moves the stage to Briefing and unmounts ProposalStep; then the generation call settles
  with one option. The continuation still runs \<open>addToArchive\<close> of the render that mounted
  it, and project \<open>p1\<close> gains the image.
\<close>

theorem proposal_archives_after_teardown:
  "stage (startNewProject ''p2'' (demoApp [demoProject ''p1'' []])) = BRIEFING \<and>
   projects (startNewProject ''p2'' (demoApp [demoProject ''p1'' []])) = [demoProject ''p1'' []] \<and>
   archived (demoApp [demoProject ''p1'' []]) (\<lambda>k. (''fresh'', 9)) 0
       (fetchOptions_settled [demoOption])
       (projects (startNewProject ''p2'' (demoApp [demoProject ''p1'' []]))) =
     [demoProject ''p1''
        [\<lparr> id_img = ''a'', url_img = ''data:image/png;base64,AAAA'', stage_img = PROPOSAL,
            timestamp_img = 9,
            metadata_img = Some ''The Direct Vision: A literal interpretation of your specific prompt requirements.'',
            type_img = ''CONCEPT'' \<rparr>]]"
  by (simp add: startNewProject_def demoApp_def demoProject_def fetchOptions_settled_def
      demoOption_def addToArchive_def appendImage_def newImage_def truthy_def)

section \<open>The inspiration images of the briefing form\<close>

lemma handleInspirationChange_take:
  "handleInspirationChange (Some fs) d =
     (if length (inspirationImages d) < 10
      then Some (take (10 - length (inspirationImages d)) fs) else None)"
  by (auto simp: handleInspirationChange_def Let_def nat_diff_distrib'
      intro: arg_cong2[where f = take])

text \<open>
  An addition that is read before anything else happens appends the first
  \<open>min k (10 - n)\<close> of its \<open>k\<close> files to a list of \<open>n\<close> images, so it keeps a list of at most
  ten images at most ten long; a removal never lengthens the list.
\<close>

lemma addFiles_appends:
  "inspirationImages (addFiles fs d) =
     inspirationImages d @ take (10 - length (inspirationImages d)) fs"
  by (simp add: addFiles_def handleInspirationChange_take filesLoaded_def)

lemma addFiles_length:
  "length (inspirationImages (addFiles fs d)) =
     length (inspirationImages d) + min (length fs) (10 - length (inspirationImages d))"
  by (simp add: addFiles_appends)

lemma addFiles_bound:
  "length (inspirationImages d) \<le> 10 \<Longrightarrow> length (inspirationImages (addFiles fs d)) \<le> 10"
  by (simp add: addFiles_length)

lemma removeInspirationImage_bound:
  "length (inspirationImages (removeInspirationImage i d)) \<le> length (inspirationImages d)"
proof -
  have "length (filter (\<lambda>(j, img). j \<noteq> i) (enumerate 0 (inspirationImages d)))
          \<le> length (enumerate 0 (inspirationImages d))"
    by (rule length_filter_le)
  then show ?thesis by (simp add: removeInspirationImage_def)
qed

text \<open>
  Claim C10 asks that the list never exceeds ten images after any sequence of additions
  and removals. The handler computes the free slots from the list of the render in which
  the files were picked, and appends to the list of the moment the files have been read.
  Two selections of ten files each, the second made before the files of the first have been
  read, both see an empty list; when both batches have been read the list holds twenty
  images.
\<close>

theorem overlapping_picks_exceed_ten:
  "length (inspirationImages (data (formRun
      [Pick (Some tenFiles), Pick (Some tenFiles), Loaded 0, Loaded 0]
      \<lparr> data = initialData, reading = [] \<rparr>))) = 20"
  by (simp add: handleInspirationChange_def filesLoaded_def initialData_def tenFiles_def)


end
